theory Spec2Isabelle
  imports Main "HOL-Library.Sublist" "HOL-Library.Multiset" "HOL-Library.Word"
begin

unbundle bit_operations_syntax

section \<open>ghinst: asset selection, archive extraction, install and purge\<close>

text \<open>
  A shallow embedding of the Go program \<^verbatim>\<open>ghinst\<close>. Go strings are byte strings and are
  modelled as \<^typ>\<open>string\<close> (lists of 8-bit characters). Functions of the Go standard
  library that the program calls are either written out from their documented behaviour
  (\<^verbatim>\<open>strings.Index\<close>, \<^verbatim>\<open>strings.Cut\<close>, \<^verbatim>\<open>filepath.Base\<close>, ...) or, where their behaviour is
  not fixed by their contract (\<^verbatim>\<open>sort.Slice\<close> on ties, Unicode case mapping, decompression),
  taken as parameters of the functions that call them.

  The sources hold several revisions of \<^verbatim>\<open>main.go\<close>. \<open>selectAsset\<close>, \<open>isArchive\<close>,
  \<open>matchesAny\<close> and the alias tables are the same in all of them, and \<open>parseTarget\<close> is the
  same in the two that accept a version. \<open>extractBinary\<close>, \<open>findInTar\<close> and \<open>findInZip\<close>
  are those of \<^verbatim>\<open>main.go\<close>, on byte slices. \<open>installBinary\<close> and \<open>purge\<close> are those of
  the revision that takes a base directory, which is the one that the tests call;
  \<open>installBinary_home\<close> is the \<open>installBinary\<close> of \<^verbatim>\<open>main.go\<close>.
\<close>

subsection \<open>Errors\<close>

text \<open>
  Every \<^verbatim>\<open>fmt.Errorf\<close> of the program is a constructor; \<open>LibError\<close> stands for an error
  returned by a library call (gzip, tar, zip, the file system), and \<open>IndexPanic\<close> for the
  run-time panic of an index out of range.
\<close>

datatype error =
    UnsupportedOS string
  | UnsupportedArch string
  | NoMatchingAsset string string
  | NoExecutableFound
  | InvalidTarget string
  | LibError string
  | IndexPanic

fun isUnsupportedPlatform :: "error \<Rightarrow> bool" where
  "isUnsupportedPlatform (UnsupportedOS _) = True"
| "isUnsupportedPlatform (UnsupportedArch _) = True"
| "isUnsupportedPlatform _ = False"

subsection \<open>The string functions of the Go library\<close>

text \<open>\<^verbatim>\<open>strings.HasPrefix\<close> and \<^verbatim>\<open>strings.HasSuffix\<close>, by comparing the slice of the right length.\<close>

definition HasPrefix :: "string \<Rightarrow> string \<Rightarrow> bool" where
  "HasPrefix s p = (length p \<le> length s \<and> take (length p) s = p)"

definition HasSuffix :: "string \<Rightarrow> string \<Rightarrow> bool" where
  "HasSuffix s x = (length x \<le> length s \<and> drop (length s - length x) s = x)"

text \<open>\<^verbatim>\<open>strings.Index\<close>: the position of the first occurrence of \<open>sep\<close> in \<open>s\<close>, or none (-1 in Go).\<close>

fun Index :: "string \<Rightarrow> string \<Rightarrow> nat option" where
  "Index [] sep = (if sep = [] then Some 0 else None)"
| "Index (c # cs) sep =
     (if HasPrefix (c # cs) sep then Some 0 else map_option Suc (Index cs sep))"

definition Contains :: "string \<Rightarrow> string \<Rightarrow> bool" where
  "Contains s substr = (Index s substr \<noteq> None)"

text \<open>
  \<^verbatim>\<open>strings.ToLower\<close>: a string of ASCII bytes only is lowered byte by byte; any other string
  goes through \<^verbatim>\<open>strings.Map(unicode.ToLower, s)\<close>, which is the parameter \<open>ul\<close>.
\<close>

definition lowerByte :: "char \<Rightarrow> char" where
  "lowerByte c = (if (65::nat) \<le> of_char c \<and> of_char c \<le> (90::nat)
                  then char_of (of_char c + (32::nat)) else c)"

definition ToLower :: "(string \<Rightarrow> string) \<Rightarrow> string \<Rightarrow> string" where
  "ToLower ul s = (if list_all (\<lambda>c. of_char c < (128::nat)) s then map lowerByte s else ul s)"

subsection \<open>Releases, assets and the alias tables\<close>

record Asset =
  Name :: string
  BrowserDownloadURL :: string
  Size :: "64 word"

definition osAliases :: "string \<rightharpoonup> string list" where
  "osAliases = map_of
     [(''linux'', [''linux'']),
      (''darwin'', [''darwin'', ''macos'', ''osx'']),
      (''windows'', [''windows'', ''win''])]"

definition archAliases :: "string \<rightharpoonup> string list" where
  "archAliases = map_of
     [(''amd64'', [''amd64'', ''x86_64'']),
      (''arm64'', [''arm64'', ''aarch64'']),
      (''386'', [''386'', ''i386'', ''i686''])]"

definition archiveExts :: "string list" where
  "archiveExts = [''.tar.gz'', ''.tgz'', ''.tar.bz2'', ''.tar.xz'', ''.zip'']"

fun isArchive_loop :: "string \<Rightarrow> string list \<Rightarrow> bool" where
  "isArchive_loop name [] = False"
| "isArchive_loop name (ext # exts) = (if HasSuffix name ext then True else isArchive_loop name exts)"

definition isArchive :: "string \<Rightarrow> bool" where
  "isArchive name = isArchive_loop name archiveExts"

fun matchesAny :: "string \<Rightarrow> string list \<Rightarrow> bool" where
  "matchesAny s [] = False"
| "matchesAny s (p # phrases) = (if Contains s p then True else matchesAny s phrases)"

subsection \<open>Sorting\<close>

text \<open>
  \<^verbatim>\<open>sort.Slice(x, less)\<close> sorts in place and is not stable: its contract fixes the result only
  up to the order of elements that the comparison \<open>lt\<close> does not separate. The sort is therefore a
  parameter \<open>srt\<close>, and \<open>sortSlice_ok srt lt\<close> is the contract: the result is a
  rearrangement of the input in which no later element is \<open>lt\<close> an earlier one.
\<close>

definition sortSlice_ok :: "('a list \<Rightarrow> 'a list) \<Rightarrow> ('a \<Rightarrow> 'a \<Rightarrow> bool) \<Rightarrow> bool" where
  "sortSlice_ok srt lt =
     (\<forall>xs. mset (srt xs) = mset xs \<and> sorted_wrt (\<lambda>a b. \<not> lt b a) (srt xs))"

text \<open>The comparison of \<open>selectAsset\<close>: \<^verbatim>\<open>len(candidates[i].Name) < len(candidates[j].Name)\<close>.\<close>

definition shorterName :: "Asset \<Rightarrow> Asset \<Rightarrow> bool" where
  "shorterName a b = (length (Name a) < length (Name b))"

subsection \<open>selectAsset\<close>

text \<open>
  \<open>isCandidate\<close> is the test in the body of the loop over the assets. The candidates are
  sorted in place, so that \<^verbatim>\<open>candidates[0]\<close> is the head of the sorted list; it would panic on
  an empty slice.
\<close>

definition isCandidate :: "(string \<Rightarrow> string) \<Rightarrow> string list \<Rightarrow> string list \<Rightarrow> Asset \<Rightarrow> bool" where
  "isCandidate ul osPhrases archPhrases a =
     (let lower = ToLower ul (Name a)
      in matchesAny lower osPhrases \<and> matchesAny lower archPhrases \<and> isArchive lower)"

definition selectAsset ::
  "(string \<Rightarrow> string) \<Rightarrow> (Asset list \<Rightarrow> Asset list) \<Rightarrow> Asset list \<Rightarrow> string \<Rightarrow> string
     \<Rightarrow> error + Asset" where
  "selectAsset ul srt assets goos goarch =
     (case osAliases goos of
        None \<Rightarrow> Inl (UnsupportedOS goos)
      | Some osPhrases \<Rightarrow>
          (case archAliases goarch of
             None \<Rightarrow> Inl (UnsupportedArch goarch)
           | Some archPhrases \<Rightarrow>
               (let candidates = filter (isCandidate ul osPhrases archPhrases) assets
                in if length candidates = 0 then Inl (NoMatchingAsset goos goarch)
                   else (case srt candidates of
                           [] \<Rightarrow> Inl IndexPanic
                         | c # _ \<Rightarrow> Inr c))))"

subsection \<open>Reference notions and sample data\<close>

text \<open>
  The filter of the selector as the specification words it, on the library's notions of
  a contiguous sublist and a suffix: the lowered name contains a phrase of the operating
  system, a phrase of the architecture, and ends in an archive extension.
\<close>

definition passesFilter :: "(string \<Rightarrow> string) \<Rightarrow> string list \<Rightarrow> string list \<Rightarrow> Asset \<Rightarrow> bool" where
  "passesFilter ul osPhrases archPhrases a =
     (let lower = ToLower ul (Name a)
      in (\<exists>p \<in> set osPhrases. sublist p lower) \<and>
         (\<exists>p \<in> set archPhrases. sublist p lower) \<and>
         (\<exists>e \<in> {''.tar.gz'', ''.tgz'', ''.tar.bz2'', ''.tar.xz'', ''.zip''}. suffix e lower))"

text \<open>
  Sample data: an asset with a name only, the asset list of the repository's test of
  \<open>selectAsset\<close>, a second list with two candidates, and a sort by name length that meets
  the contract of \<^verbatim>\<open>sort.Slice\<close>.
\<close>

definition mkAsset :: "string \<Rightarrow> Asset" where
  "mkAsset n = \<lparr>Name = n, BrowserDownloadURL = [], Size = 0\<rparr>"

definition byNameLength :: "Asset list \<Rightarrow> Asset list" where
  "byNameLength = sort_key (\<lambda>a. length (Name a))"

definition sampleAssets :: "Asset list" where
  "sampleAssets = map mkAsset
     [''tool_linux_amd64.tar.gz'', ''tool_linux_amd64.deb'', ''tool_macos_arm64.tar.gz'',
      ''tool_linux_amd64.tar.gz.sha256'']"

definition sampleAssets2 :: "Asset list" where
  "sampleAssets2 = map mkAsset
     [''Tool-Linux-x86_64-debug.tar.gz'', ''tool_linux_amd64.tgz.sha256'', ''tool_linux_amd64.tgz'']"

subsection \<open>parseTarget\<close>

text \<open>
  \<^verbatim>\<open>strings.Cut(s, sep)\<close> cuts \<open>s\<close> around the first occurrence of \<open>sep\<close>: the text before, the
  text after, and whether \<open>sep\<close> was found; when it is not found the result is \<open>s\<close>, the
  empty string and false.
\<close>

definition Cut :: "string \<Rightarrow> string \<Rightarrow> string \<times> string \<times> bool" where
  "Cut s sep = (case Index s sep of
                  Some i \<Rightarrow> (take i s, drop (i + length sep) s, True)
                | None \<Rightarrow> (s, [], False))"

text \<open>
  \<^verbatim>\<open>strings.SplitN(s, sep, n)\<close> for a separator that is not empty and a count \<open>n \<ge> 0\<close>, after
  the library's \<^verbatim>\<open>genSplit\<close>: no pieces for \<open>n = 0\<close>; the count is capped at
  \<open>len(s) + 1\<close>; at most \<open>n - 1\<close> cuts are made, each at the first occurrence of the
  separator in what is left, and the rest is the last piece.
\<close>

fun genSplit :: "string \<Rightarrow> string \<Rightarrow> nat \<Rightarrow> string list" where
  "genSplit s sep 0 = [s]"
| "genSplit s sep (Suc k) =
     (case Index s sep of
        None \<Rightarrow> [s]
      | Some m \<Rightarrow> take m s # genSplit (drop (m + length sep) s) sep k)"

definition SplitN :: "string \<Rightarrow> string \<Rightarrow> nat \<Rightarrow> string list" where
  "SplitN s sep n = (if n = 0 then [] else genSplit s sep (min n (length s + 1) - 1))"

text \<open>
  \<open>parseTarget\<close> returns owner, repository and tag. Go's \<^verbatim>\<open>||\<close> evaluates \<^verbatim>\<open>parts[0]\<close>
  and \<^verbatim>\<open>parts[1]\<close> only when there are two parts.
\<close>

definition parseTarget :: "string \<Rightarrow> error + (string \<times> string \<times> string)" where
  "parseTarget s =
     (case Cut s ''@'' of (slug, tag, _) \<Rightarrow>
        (let parts = SplitN slug ''/'' 2
         in if length parts \<noteq> 2 then Inl (InvalidTarget s)
            else if parts ! 0 = [] \<or> parts ! 1 = [] then Inl (InvalidTarget s)
            else Inr (parts ! 0, parts ! 1, tag)))"

text \<open>
  The reference notion for \<open>parseTarget\<close>: \<open>slug\<close> splits at its first slash into an owner
  and a rest that are both not empty.
\<close>

definition splitsAtFirstSlash :: "string \<Rightarrow> string \<Rightarrow> string \<Rightarrow> bool" where
  "splitsAtFirstSlash slug ownr rest =
     (slug = ownr @ ''/'' @ rest \<and> CHR ''/'' \<notin> set ownr \<and> ownr \<noteq> [] \<and> rest \<noteq> [])"

subsection \<open>Path names\<close>

text \<open>
  \<^verbatim>\<open>filepath.Base\<close> and \<^verbatim>\<open>filepath.Ext\<close> where the separator is the slash and there are no
  volume names. \<open>Base\<close> strips trailing slashes and returns the last element: \<open>.\<close> for the
  empty path, a single slash for a path of slashes only. \<open>Ext\<close> scans from the end up to
  the last slash and returns the suffix that begins at the last dot it meets, here with the
  bytes still to scan in reverse order and the bytes already scanned in \<open>acc\<close>.
\<close>

definition Base :: "string \<Rightarrow> string" where
  "Base path =
     (if path = [] then ''.''
      else (let stripped = rev (dropWhile (\<lambda>c. c = CHR ''/'') (rev path));
                lastElem = rev (takeWhile (\<lambda>c. c \<noteq> CHR ''/'') (rev stripped))
            in if lastElem = [] then ''/'' else lastElem))"

fun Ext_scan :: "string \<Rightarrow> string \<Rightarrow> string" where
  "Ext_scan [] acc = []"
| "Ext_scan (c # r) acc =
     (if c = CHR ''/'' then []
      else if c = CHR ''.'' then c # acc
      else Ext_scan r (c # acc))"

definition Ext :: "string \<Rightarrow> string" where
  "Ext path = Ext_scan (rev path) []"

subsection \<open>Tar streams\<close>

text \<open>
  A tar reader is the sequence of what \<^verbatim>\<open>tr.Next()\<close> returns until \<^verbatim>\<open>io.EOF\<close>: a header,
  together with what \<^verbatim>\<open>io.ReadAll(tr)\<close> would return for that entry, or an error. Of the
  header, the type flag, the name and the mode (an \<^verbatim>\<open>int64\<close>) are kept. \<open>tarPerm\<close> is the
  part of \<^verbatim>\<open>hdr.FileInfo().Mode()\<close> below bit 9, the permission bits of the header's mode;
  the other bits that \<^verbatim>\<open>Mode()\<close> sets (file type, setuid, setgid, sticky) are bit 19 and
  above and do not meet the mask \<^verbatim>\<open>0111\<close>. The octal masks \<^verbatim>\<open>0111\<close> and \<^verbatim>\<open>0777\<close> are
  written \<open>0x49\<close> and \<open>0x1FF\<close>; \<^verbatim>\<open>tar.TypeReg\<close> is the character \<open>0\<close>.
\<close>

record Header =
  hdrTypeflag :: char
  hdrName :: string
  hdrMode :: "64 word"

datatype tarItem = TarHeader Header "error + string" | TarError error

definition TypeReg :: char where
  "TypeReg = CHR ''0''"

definition tarPerm :: "Header \<Rightarrow> 32 word" where
  "tarPerm hdr = ucast (hdrMode hdr) AND 0x1FF"

fun findInTar :: "tarItem list \<Rightarrow> error + (string \<times> string)" where
  "findInTar [] = Inl NoExecutableFound"
| "findInTar (TarError err # tr) = Inl err"
| "findInTar (TarHeader hdr body # tr) =
     (if hdrTypeflag hdr \<noteq> TypeReg \<or> tarPerm hdr AND 0x49 = 0 then findInTar tr
      else (case body of
              Inl err \<Rightarrow> Inl err
            | Inr data \<Rightarrow> Inr (Base (hdrName hdr), data)))"

subsection \<open>Zip archives\<close>

text \<open>
  A zip reader is the list \<^verbatim>\<open>r.File\<close>. Of a file, the name, the mode that \<^verbatim>\<open>f.Mode()\<close>
  returns (an \<^verbatim>\<open>fs.FileMode\<close>, 32 bits, the directory bit is bit 31) and what
  \<open>readZipFile\<close> returns for it are kept. \<^verbatim>\<open>zip.NewReader\<close> is the parameter \<open>zr\<close>.
\<close>

record zipFile =
  zipName :: string
  zipMode :: "32 word"
  zipContent :: "error + string"

definition zipIsDir :: "zipFile \<Rightarrow> bool" where
  "zipIsDir f = (zipMode f AND 0x80000000 \<noteq> 0)"

definition readZipFile :: "zipFile \<Rightarrow> error + string" where
  "readZipFile f = zipContent f"

fun findInZip_loop :: "zipFile list \<Rightarrow> zipFile option \<Rightarrow> error + (string \<times> string)" where
  "findInZip_loop [] fallback =
     (case fallback of
        Some fb \<Rightarrow>
          (case readZipFile fb of
             Inl err \<Rightarrow> Inl err
           | Inr content \<Rightarrow> Inr (Base (zipName fb), content))
      | None \<Rightarrow> Inl NoExecutableFound)"
| "findInZip_loop (f # fs) fallback =
     (if zipIsDir f then findInZip_loop fs fallback
      else (let base = Base (zipName f);
                isExec = (zipMode f AND 0x49 \<noteq> 0);
                noExt = (Ext base = [])
            in if isExec \<or> noExt
               then (let fallback' = (if fallback = None then Some f else fallback)
                     in if isExec
                        then (case readZipFile f of
                                Inl err \<Rightarrow> Inl err
                              | Inr content \<Rightarrow> Inr (base, content))
                        else findInZip_loop fs fallback')
               else findInZip_loop fs fallback))"

definition findInZip :: "(string \<Rightarrow> error + zipFile list) \<Rightarrow> string \<Rightarrow> error + (string \<times> string)" where
  "findInZip zr data =
     (case zr data of
        Inl err \<Rightarrow> Inl err
      | Inr files \<Rightarrow> findInZip_loop files None)"

subsection \<open>extractBinary\<close>

text \<open>
  The decoders are parameters: \<open>gz\<close> is \<^verbatim>\<open>gzip.NewReader\<close> followed by the tar reader over
  it (the header of the gzip stream may be refused), \<open>bz\<close> the tar reader over the bzip2
  reader, \<open>zr\<close> is \<^verbatim>\<open>zip.NewReader\<close>.
\<close>

definition extractBinary ::
  "(string \<Rightarrow> string) \<Rightarrow> (string \<Rightarrow> error + tarItem list) \<Rightarrow> (string \<Rightarrow> tarItem list)
     \<Rightarrow> (string \<Rightarrow> error + zipFile list) \<Rightarrow> string \<Rightarrow> string \<Rightarrow> error + (string \<times> string)" where
  "extractBinary ul gz bz zr data assetName =
     (let lower = ToLower ul assetName
      in if HasSuffix lower ''.tar.gz'' \<or> HasSuffix lower ''.tgz''
         then (case gz data of
                 Inl err \<Rightarrow> Inl err
               | Inr tr \<Rightarrow> findInTar tr)
         else if HasSuffix lower ''.tar.bz2'' then findInTar (bz data)
         else if HasSuffix lower ''.zip'' then findInZip zr data
         else Inr (assetName, data))"

subsection \<open>Reference notions for archives\<close>

text \<open>
  The words of the specification on the data of the model: a tar entry is an executable
  regular file when its type is that of a regular file and its mode has the execute bit of
  the owner (bit 6), of the group (bit 3) or of the others (bit 0); a zip entry is a
  directory when its mode has the directory bit, has an executable bit likewise, and its
  base name has no extension when it has no dot. \<open>zipResult\<close> is what the extraction
  returns once it has chosen an entry: the error of reading it, or its base name and content.
\<close>

definition isExecRegular :: "Header \<Rightarrow> bool" where
  "isExecRegular hdr =
     (hdrTypeflag hdr = CHR ''0'' \<and>
      (bit (hdrMode hdr) 6 \<or> bit (hdrMode hdr) 3 \<or> bit (hdrMode hdr) 0))"

definition zipDirectory :: "zipFile \<Rightarrow> bool" where
  "zipDirectory f = bit (zipMode f) 31"

definition zipExecBit :: "zipFile \<Rightarrow> bool" where
  "zipExecBit f = (bit (zipMode f) 6 \<or> bit (zipMode f) 3 \<or> bit (zipMode f) 0)"

definition zipNoExtension :: "zipFile \<Rightarrow> bool" where
  "zipNoExtension f = (CHR ''.'' \<notin> set (Base (zipName f)))"

definition zipResult :: "zipFile \<Rightarrow> error + (string \<times> string)" where
  "zipResult f = (case zipContent f of
                    Inl err \<Rightarrow> Inl err
                  | Inr content \<Rightarrow> Inr (Base (zipName f), content))"

text \<open>Sample data: a tar stream and the file list of a zip archive.\<close>

definition sampleTar :: "tarItem list" where
  "sampleTar =
     [TarHeader \<lparr>hdrTypeflag = CHR ''5'', hdrName = ''tool-1.0/'', hdrMode = 0x1ED\<rparr> (Inr []),
      TarHeader \<lparr>hdrTypeflag = CHR ''0'', hdrName = ''tool-1.0/README.md'', hdrMode = 0x1A4\<rparr> (Inr ''read me''),
      TarHeader \<lparr>hdrTypeflag = CHR ''2'', hdrName = ''tool-1.0/latest'', hdrMode = 0x1FF\<rparr> (Inr []),
      TarHeader \<lparr>hdrTypeflag = CHR ''0'', hdrName = ''tool-1.0/bin/tool'', hdrMode = 0x1ED\<rparr> (Inr ''ELF-tool''),
      TarHeader \<lparr>hdrTypeflag = CHR ''0'', hdrName = ''tool-1.0/bin/other'', hdrMode = 0x1ED\<rparr> (Inr ''ELF-other'')]"

definition sampleZip :: "zipFile list" where
  "sampleZip =
     [\<lparr>zipName = ''tool/'', zipMode = 0x800001ED, zipContent = Inr []\<rparr>,
      \<lparr>zipName = ''tool/LICENSE'', zipMode = 0x1A4, zipContent = Inr ''MIT''\<rparr>,
      \<lparr>zipName = ''tool/README.md'', zipMode = 0x1A4, zipContent = Inr ''read me''\<rparr>,
      \<lparr>zipName = ''tool/bin/tool.exe'', zipMode = 0x1ED, zipContent = Inr ''MZ-tool''\<rparr>,
      \<lparr>zipName = ''tool/bin/helper'', zipMode = 0x1ED, zipContent = Inr ''ELF-helper''\<rparr>]"

subsection \<open>The file system\<close>

text \<open>
  The file system that the installer and the purge act on is modelled as a finite table
  from paths to nodes. A path is the list of its components from the root; the root is
  the empty list and is always a directory. A directory carries its modification time,
  a file its content, a symbolic link its target. The model has no permissions and no
  quota: an operation fails only for the reasons written below, and a symbolic link is
  never followed.
\<close>

type_synonym path = "string list"

type_synonym time = int

datatype node = Dir time | File string | SymlinkTo path

type_synonym fs = "(path \<times> node) list"

fun isDir :: "node \<Rightarrow> bool" where
  "isDir (Dir _) = True"
| "isDir _ = False"


definition dirAt :: "fs \<Rightarrow> path \<Rightarrow> bool" where
  "dirAt fs p = (p = [] \<or> (case map_of fs p of Some n \<Rightarrow> isDir n | None \<Rightarrow> False))"

definition store :: "path \<Rightarrow> node \<Rightarrow> fs \<Rightarrow> fs" where
  "store p n fs = (p, n) # filter (\<lambda>e. fst e \<noteq> p) fs"

definition children :: "path \<Rightarrow> fs \<Rightarrow> string list" where
  "children d fs = remdups (map (last \<circ> fst) (filter (\<lambda>e. fst e \<noteq> [] \<and> butlast (fst e) = d) fs))"

text \<open>
  \<^verbatim>\<open>filepath.Join\<close>, which cleans its result: every element is split at its slashes, an
  empty component and \<open>.\<close> are dropped, and \<open>..\<close> drops the component before it (at the
  root, nothing). The first argument is a path that is clean already.
\<close>

definition cleanStep :: "path \<Rightarrow> string \<Rightarrow> path" where
  "cleanStep p c = (if c = [] \<or> c = ''.'' then p else if c = ''..'' then butlast p else p @ [c])"

definition Join :: "path \<Rightarrow> string list \<Rightarrow> path" where
  "Join base elems = foldl cleanStep base (concat (map (\<lambda>s. genSplit s ''/'' (length s)) elems))"

text \<open>
  \<^verbatim>\<open>os.MkdirAll\<close> creates the directories of the path that are missing, from the root down,
  and fails when it meets a node that is not a directory; what it created before stays.
\<close>

fun MkdirAll_loop :: "path list \<Rightarrow> time \<Rightarrow> fs \<Rightarrow> error option \<times> fs" where
  "MkdirAll_loop [] now fs = (None, fs)"
| "MkdirAll_loop (q # qs) now fs =
     (case map_of fs q of
        None \<Rightarrow> MkdirAll_loop qs now (store q (Dir now) fs)
      | Some n \<Rightarrow> if isDir n then MkdirAll_loop qs now fs
                  else (Some (LibError ''mkdir: not a directory''), fs))"

definition MkdirAll :: "path \<Rightarrow> time \<Rightarrow> fs \<Rightarrow> error option \<times> fs" where
  "MkdirAll p now fs = MkdirAll_loop (tl (prefixes p)) now fs"

text \<open>
  \<^verbatim>\<open>os.OpenFile\<close> with \<^verbatim>\<open>O_CREATE|O_WRONLY|O_TRUNC\<close>: fails on a directory and when the
  parent is not a directory; otherwise the path holds an empty file.
\<close>

definition OpenFile :: "path \<Rightarrow> fs \<Rightarrow> error option \<times> fs" where
  "OpenFile p fs =
     (if dirAt fs p then (Some (LibError ''open: is a directory''), fs)
      else if \<not> dirAt fs (butlast p) then (Some (LibError ''open: no such file or directory''), fs)
      else (None, store p (File []) fs))"

text \<open>
  \<^verbatim>\<open>io.Copy(dst, src)\<close>: the source is the bytes that can be read from it and the error, if
  any, that ends the reading; the bytes read are written to the file at \<open>p\<close>.
\<close>

definition Copy :: "path \<Rightarrow> string \<times> error option \<Rightarrow> fs \<Rightarrow> error option \<times> fs" where
  "Copy p src fs = (snd src, store p (File (fst src)) fs)"

text \<open>
  \<^verbatim>\<open>os.Chtimes\<close> sets the modification time; only directories carry one in this model.
\<close>

definition Chtimes :: "path \<Rightarrow> time \<Rightarrow> fs \<Rightarrow> error option \<times> fs" where
  "Chtimes p t fs =
     (case map_of fs p of
        Some (Dir _) \<Rightarrow> (None, store p (Dir t) fs)
      | Some n \<Rightarrow> (None, fs)
      | None \<Rightarrow> (Some (LibError ''chtimes: no such file or directory''), fs))"

text \<open>\<^verbatim>\<open>os.Remove\<close> removes a file, a symbolic link or an empty directory.\<close>

definition Remove :: "path \<Rightarrow> fs \<Rightarrow> error option \<times> fs" where
  "Remove p fs =
     (case map_of fs p of
        None \<Rightarrow> (Some (LibError ''remove: no such file or directory''), fs)
      | Some n \<Rightarrow>
          if isDir n \<and> children p fs \<noteq> [] then (Some (LibError ''remove: directory not empty''), fs)
          else (None, filter (\<lambda>e. fst e \<noteq> p) fs))"

definition Symlink :: "path \<Rightarrow> path \<Rightarrow> fs \<Rightarrow> error option \<times> fs" where
  "Symlink oldname newname fs =
     (if newname = [] \<or> map_of fs newname \<noteq> None then (Some (LibError ''symlink: file exists''), fs)
      else if \<not> dirAt fs (butlast newname) then (Some (LibError ''symlink: no such file or directory''), fs)
      else (None, store newname (SymlinkTo oldname) fs))"

text \<open>
  \<^verbatim>\<open>os.RemoveAll\<close> removes the path and everything below it, and returns no error when the
  path does not exist. It can fail (a directory that cannot be written, a busy mount): then
  it has removed what it could and returns the first error. Whether it fails is not a
  matter of the table, so it is the parameter \<open>rmErr\<close>: for a path, either nothing, or the
  error together with the paths that could not be removed; these stay, with the
  directories that lead to them.
\<close>

definition RemoveAll ::
  "(path \<Rightarrow> (error \<times> path list) option) \<Rightarrow> path \<Rightarrow> fs \<Rightarrow> error option \<times> fs" where
  "RemoveAll rmErr p fs =
     (case rmErr p of
        None \<Rightarrow> (None, filter (\<lambda>e. \<not> prefix p (fst e)) fs)
      | Some (err, kept) \<Rightarrow>
          (Some err, filter (\<lambda>e. \<not> prefix p (fst e) \<or> list_ex (prefix (fst e)) kept) fs))"

subsection \<open>installBinary\<close>

text \<open>
  \<open>installBinary\<close> with a base directory, as the revision with \<open>purge\<close> has it. The steps
  after the creation of the version directory are \<open>installBinary_steps\<close>; the deferred
  function runs when they return an error, and removes the version directory. The clock
  \<^verbatim>\<open>time.Now()\<close> is the parameter \<open>now\<close>. The errors of \<^verbatim>\<open>os.Chtimes\<close>, of \<^verbatim>\<open>os.Remove\<close>
  and of \<^verbatim>\<open>os.RemoveAll\<close> are dropped, as in the source.
\<close>

definition installBinary_steps ::
  "path \<Rightarrow> path \<Rightarrow> string \<Rightarrow> string \<times> error option \<Rightarrow> time \<Rightarrow> fs \<Rightarrow> (error + path) \<times> fs" where
  "installBinary_steps baseDir installDir binName src now fs1 =
     (let binPath = Join installDir [binName]
      in case OpenFile binPath fs1 of
           (Some err, fs2) \<Rightarrow> (Inl err, fs2)
         | (None, fs2) \<Rightarrow>
             (case Copy binPath src fs2 of
                (Some err, fs3) \<Rightarrow> (Inl err, fs3)
              | (None, fs3) \<Rightarrow>
                  (let fs4 = snd (Chtimes installDir now fs3);
                       linkDir = Join baseDir [''bin'']
                   in case MkdirAll linkDir now fs4 of
                        (Some err, fs5) \<Rightarrow> (Inl err, fs5)
                      | (None, fs5) \<Rightarrow>
                          (let linkPath = Join linkDir [binName];
                               fs6 = snd (Remove linkPath fs5)
                           in case Symlink binPath linkPath fs6 of
                                (Some err, fs7) \<Rightarrow> (Inl err, fs7)
                              | (None, fs7) \<Rightarrow> (Inr linkPath, fs7)))))"

definition installBinary ::
  "(path \<Rightarrow> (error \<times> path list) option) \<Rightarrow> path \<Rightarrow> string \<Rightarrow> string \<Rightarrow> string \<Rightarrow> string
     \<Rightarrow> string \<times> error option \<Rightarrow> time \<Rightarrow> fs \<Rightarrow> (error + path) \<times> fs" where
  "installBinary rmErr baseDir owner repo tag binName src now fs =
     (let installDir = Join baseDir [''ghinst'', owner, repo @ ''@'' @ tag]
      in case MkdirAll installDir now fs of
           (Some err, fs1) \<Rightarrow> (Inl err, fs1)
         | (None, fs1) \<Rightarrow>
             (case installBinary_steps baseDir installDir binName src now fs1 of
                (Inl err, fs') \<Rightarrow> (Inl err, snd (RemoveAll rmErr installDir fs'))
              | (Inr linkPath, fs') \<Rightarrow> (Inr linkPath, fs')))"

subsection \<open>installBinary without a base directory\<close>

text \<open>
  The revision of \<open>installBinary\<close> in \<^verbatim>\<open>main.go\<close> that installs below \<^verbatim>\<open>~/.local\<close>: it takes
  no base directory and the bytes of the binary instead of a file, and it has no deferred
  function. \<^verbatim>\<open>os.UserHomeDir\<close> is the parameter \<open>home\<close>; \<^verbatim>\<open>os.WriteFile\<close> creates or
  truncates the file and writes the bytes.
\<close>

definition WriteFile :: "path \<Rightarrow> string \<Rightarrow> fs \<Rightarrow> error option \<times> fs" where
  "WriteFile p content fs =
     (case OpenFile p fs of
        (Some err, fs') \<Rightarrow> (Some err, fs')
      | (None, fs') \<Rightarrow> (None, store p (File content) fs'))"

definition installBinary_home ::
  "error + path \<Rightarrow> string \<Rightarrow> string \<Rightarrow> string \<Rightarrow> string \<Rightarrow> string \<Rightarrow> time \<Rightarrow> fs
     \<Rightarrow> (error + path) \<times> fs" where
  "installBinary_home home owner repo tag binName content now fs =
     (case home of
        Inl err \<Rightarrow> (Inl err, fs)
      | Inr homeDir \<Rightarrow>
          (let installDir = Join homeDir [''.local'', ''ghinst'', owner, repo @ ''@'' @ tag]
           in case MkdirAll installDir now fs of
                (Some err, fs1) \<Rightarrow> (Inl err, fs1)
              | (None, fs1) \<Rightarrow>
                  (let binPath = Join installDir [binName]
                   in case WriteFile binPath content fs1 of
                        (Some err, fs2) \<Rightarrow> (Inl err, fs2)
                      | (None, fs2) \<Rightarrow>
                          (let linkDir = Join homeDir [''.local'', ''bin'']
                           in case MkdirAll linkDir now fs2 of
                                (Some err, fs3) \<Rightarrow> (Inl err, fs3)
                              | (None, fs3) \<Rightarrow>
                                  (let linkPath = Join linkDir [binName];
                                       fs4 = snd (Remove linkPath fs3)
                                   in case Symlink binPath linkPath fs4 of
                                        (Some err, fs5) \<Rightarrow> (Inl err, fs5)
                                      | (None, fs5) \<Rightarrow> (Inr linkPath, fs5))))))"

definition sampleHomeFs :: fs where
  "sampleHomeFs =
     [([''home''], Dir 1),
      ([''home'', ''.local''], Dir 2),
      ([''home'', ''.local'', ''bin''], File ''not a directory'')]"

subsection \<open>purge\<close>





subsection \<open>Reference notions and sample data for the file system\<close>





text \<open>
  Sample data: a file system for the installer; an environment for \<open>purge\<close> in which the
  directory of \<open>owner\<close> holds three versions of \<open>repo\<close>, one of \<open>repo2\<close> and a file, and no
  other directory can be listed; an environment with two directories of a repository named
  \<open>a@b\<close>; and removals that never fail, or fail on the oldest version of \<open>repo\<close>.
\<close>

definition sampleFs :: fs where
  "sampleFs =
     [([''home''], Dir 1),
      ([''home'', ''bin''], Dir 2),
      ([''home'', ''bin'', ''docs''], Dir 5),
      ([''home'', ''bin'', ''docs'', ''index''], File ''text''),
      ([''home'', ''bin'', ''tool''], SymlinkTo [''home'', ''ghinst'', ''owner'', ''repo@v2'', ''tool'']),
      ([''home'', ''ghinst''], Dir 3),
      ([''home'', ''ghinst'', ''owner''], Dir 4),
      ([''home'', ''ghinst'', ''owner'', ''repo@v2''], Dir 20),
      ([''home'', ''ghinst'', ''owner'', ''repo@v2'', ''tool''], File ''ELF2''),
      ([''home'', ''ghinst'', ''owner'', ''repo@v1''], Dir 10),
      ([''home'', ''ghinst'', ''owner'', ''repo@v1'', ''tool''], File ''ELF1''),
      ([''home'', ''ghinst'', ''owner'', ''repo@v3''], Dir 15),
      ([''home'', ''ghinst'', ''owner'', ''repo2@v1''], Dir 30),
      ([''home'', ''ghinst'', ''owner'', ''repo@notes''], File ''text'')]"





definition noRemovalFails :: "path \<Rightarrow> (error \<times> path list) option" where
  "noRemovalFails p = None"

definition removalDenied :: "path \<Rightarrow> (error \<times> path list) option" where
  "removalDenied p = Some (LibError ''unlinkat: permission denied'', [p])"

section \<open>Properties\<close>

subsection \<open>The string functions meet the library's notions\<close>

lemma HasPrefix_iff: "HasPrefix s p \<longleftrightarrow> prefix p s"
  by (auto simp: HasPrefix_def prefix_def take_is_prefix dest: prefix_length_le) (metis append_eq_conv_conj)

lemma HasSuffix_iff: "HasSuffix s x \<longleftrightarrow> suffix x s"
  by (auto simp: HasSuffix_def suffix_def) (metis append_take_drop_id)

lemma Index_Some_iff: "(Index s p \<noteq> None) \<longleftrightarrow> sublist p s"
  by (induction s) (auto simp: HasPrefix_iff sublist_Cons_right)

lemma Contains_iff: "Contains s p \<longleftrightarrow> sublist p s"
  unfolding Contains_def by (rule Index_Some_iff)

lemma matchesAny_iff: "matchesAny s ps \<longleftrightarrow> (\<exists>p\<in>set ps. sublist p s)"
  by (induction ps) (auto simp: Contains_iff)

lemma isArchive_loop_iff: "isArchive_loop n es \<longleftrightarrow> (\<exists>e\<in>set es. suffix e n)"
  by (induction es) (auto simp: HasSuffix_iff)

lemma isCandidate_iff: "isCandidate ul ops aps a \<longleftrightarrow> passesFilter ul ops aps a"
  by (simp add: isCandidate_def passesFilter_def matchesAny_iff isArchive_def isArchive_loop_iff
      archiveExts_def Let_def)

subsection \<open>What the contract of the sort gives\<close>

lemma sortSlice_ok_byNameLength: "sortSlice_ok byNameLength shorterName"
proof -
  have "sorted_wrt (\<lambda>a b. length (Name a) \<le> length (Name b)) (sort_key (\<lambda>a. length (Name a)) xs)" for xs :: "Asset list"
    using sorted_sort_key [of "\<lambda>a. length (Name a)" xs] by (simp only: sorted_map)
  then show ?thesis
    by (simp add: sortSlice_ok_def byNameLength_def shorterName_def not_less)
qed

lemma sortSlice_head:
  assumes ok: "sortSlice_ok srt lt" and xs: "xs \<noteq> []"
  shows "\<exists>c cs. srt xs = c # cs \<and> c \<in> set xs \<and> (\<forall>b \<in> set xs. \<not> lt b c \<or> b = c)"
proof -
  from ok have m: "mset (srt xs) = mset xs" and s: "sorted_wrt (\<lambda>a b. \<not> lt b a) (srt xs)"
    by (simp_all add: sortSlice_ok_def)
  from m xs have "srt xs \<noteq> []" by auto
  then obtain c cs where c: "srt xs = c # cs" by (cases "srt xs") auto
  from m have st: "set (srt xs) = set xs" by (rule mset_eq_setD)
  from s c have "\<forall>b \<in> set cs. \<not> lt b c" by simp
  with st c show ?thesis by auto
qed

lemma sortSlice_single:
  assumes "sortSlice_ok srt lt"
  shows "srt [x] = [x]"
proof -
  from assms have "mset (srt [x]) = mset [x]"
    by (simp add: sortSlice_ok_def)
  then show ?thesis by simp
qed

subsection \<open>Unsupported platforms\<close>

text \<open>
  Claim C5. When the operating system or the architecture is not a key of its alias table,
  \<open>selectAsset\<close> fails with an unsupported-platform error, whatever the asset list is (the
  empty list included) and whatever the sort and the case mapping do: the operating system
  is looked up first, the architecture second.
\<close>

theorem selectAsset_unsupported_platform:
  "goos \<notin> dom osAliases \<or> goarch \<notin> dom archAliases \<Longrightarrow>
     (\<exists>e. selectAsset ul srt assets goos goarch = Inl e \<and> isUnsupportedPlatform e) \<and>
     selectAsset ul srt assets goos goarch = selectAsset ul' srt' [] goos goarch \<and>
     selectAsset ul srt assets goos goarch =
       (if goos \<notin> dom osAliases then Inl (UnsupportedOS goos) else Inl (UnsupportedArch goarch))"
  by (auto simp: selectAsset_def split: option.splits)

theorem selectAsset_unsupported_platform_witness:
  "(\<exists>e. selectAsset id id [\<lparr>Name = ''tool_plan9_amd64.tar.gz'', BrowserDownloadURL = '''', Size = 0\<rparr>]
            ''plan9'' ''amd64'' = Inl e \<and> isUnsupportedPlatform e) \<and>
   selectAsset id id [] ''linux'' ''riscv64'' = Inl (UnsupportedArch ''riscv64'')"
proof -
  have os: "''plan9'' \<notin> dom osAliases"
    by (simp add: osAliases_def dom_def)
  have arch: "''riscv64'' \<notin> dom archAliases" and lin: "''linux'' \<in> dom osAliases"
    by (simp_all add: archAliases_def osAliases_def dom_def)
  from selectAsset_unsupported_platform [of "''plan9''" "''amd64''" id id _ id id, OF disjI1, OF os]
  have a: "\<exists>e. selectAsset id id [\<lparr>Name = ''tool_plan9_amd64.tar.gz'', BrowserDownloadURL = '''', Size = 0\<rparr>]
            ''plan9'' ''amd64'' = Inl e \<and> isUnsupportedPlatform e"
    by blast
  from selectAsset_unsupported_platform [of "''linux''" "''riscv64''" id id "[]" id id, OF disjI2, OF arch] lin
  have b: "selectAsset id id [] ''linux'' ''riscv64'' = Inl (UnsupportedArch ''riscv64'')"
    by simp
  from a b show ?thesis by blast
qed

subsection \<open>The selected asset\<close>

text \<open>
  Claim C1. For an operating system and an architecture of the alias tables, an asset that
  \<open>selectAsset\<close> returns is an asset of the list, its lowered name contains a phrase of the
  operating system and a phrase of the architecture and ends in one of the five archive
  extensions, and no asset of the list that passes this filter has a shorter (original)
  name. The sort is any function that meets the contract of \<^verbatim>\<open>sort.Slice\<close>.
\<close>

theorem selectAsset_shortest_candidate:
  assumes ok: "sortSlice_ok srt shorterName"
    and os: "osAliases goos = Some osPhrases"
    and arch: "archAliases goarch = Some archPhrases"
    and sel: "selectAsset ul srt assets goos goarch = Inr a"
  shows "a \<in> set assets \<and> passesFilter ul osPhrases archPhrases a \<and>
         (\<forall>b \<in> set assets. passesFilter ul osPhrases archPhrases b \<longrightarrow>
            length (Name a) \<le> length (Name b))"
proof -
  define cands where "cands = filter (isCandidate ul osPhrases archPhrases) assets"
  from sel os arch have ne: "cands \<noteq> []"
    by (auto simp: selectAsset_def cands_def Let_def split: if_splits)
  from sortSlice_head [OF ok ne] obtain c cs where
    c: "srt cands = c # cs" "c \<in> set cands" "\<forall>b \<in> set cands. \<not> shorterName b c \<or> b = c"
    by blast
  from sel os arch ne c(1) have "a = c"
    by (simp add: selectAsset_def cands_def Let_def)
  with c(2,3) show ?thesis
    by (auto simp: cands_def isCandidate_iff shorterName_def not_less)
qed

theorem selectAsset_shortest_candidate_witness:
  "selectAsset id byNameLength sampleAssets2 ''linux'' ''amd64'' = Inr (mkAsset ''tool_linux_amd64.tgz'') \<and>
   mkAsset ''tool_linux_amd64.tgz'' \<in> set sampleAssets2 \<and>
   passesFilter id [''linux''] [''amd64'', ''x86_64''] (mkAsset ''tool_linux_amd64.tgz'') \<and>
   passesFilter id [''linux''] [''amd64'', ''x86_64''] (mkAsset ''Tool-Linux-x86_64-debug.tar.gz'') \<and>
   length (Name (mkAsset ''tool_linux_amd64.tgz'')) \<le> length (Name (mkAsset ''Tool-Linux-x86_64-debug.tar.gz''))"
proof -
  have os: "osAliases ''linux'' = Some [''linux'']"
    by (simp add: osAliases_def)
  have arch: "archAliases ''amd64'' = Some [''amd64'', ''x86_64'']"
    by (simp add: archAliases_def)
  have sel: "selectAsset id byNameLength sampleAssets2 ''linux'' ''amd64'' = Inr (mkAsset ''tool_linux_amd64.tgz'')"
    by code_simp
  have other: "passesFilter id [''linux''] [''amd64'', ''x86_64''] (mkAsset ''Tool-Linux-x86_64-debug.tar.gz'')"
    unfolding isCandidate_iff [symmetric] by code_simp
  have mem: "mkAsset ''Tool-Linux-x86_64-debug.tar.gz'' \<in> set sampleAssets2"
    by (simp add: sampleAssets2_def)
  from selectAsset_shortest_candidate [OF sortSlice_ok_byNameLength os arch sel] other mem sel
  show ?thesis by blast
qed

text \<open>
  Claim C6. For an operating system and an architecture of the alias tables,
  \<open>selectAsset\<close> fails with the no-matching-asset error exactly when no asset of the list
  passes the filter (so in particular on the empty list), and it fails in no other way.
\<close>

theorem selectAsset_no_match_iff:
  assumes ok: "sortSlice_ok srt shorterName"
    and os: "osAliases goos = Some osPhrases"
    and arch: "archAliases goarch = Some archPhrases"
  shows "selectAsset ul srt [] goos goarch = Inl (NoMatchingAsset goos goarch) \<and>
         (selectAsset ul srt assets goos goarch = Inl (NoMatchingAsset goos goarch)) =
           (\<not> (\<exists>a \<in> set assets. passesFilter ul osPhrases archPhrases a)) \<and>
         ((\<exists>e. selectAsset ul srt assets goos goarch = Inl e) =
           (selectAsset ul srt assets goos goarch = Inl (NoMatchingAsset goos goarch)))"
proof -
  have e: "selectAsset ul srt [] goos goarch = Inl (NoMatchingAsset goos goarch)"
    using os arch by (simp add: selectAsset_def)
  show ?thesis
proof (cases "filter (isCandidate ul osPhrases archPhrases) assets = []")
  case True
  then have "selectAsset ul srt assets goos goarch = Inl (NoMatchingAsset goos goarch)"
    using os arch by (simp add: selectAsset_def)
  moreover from True have "\<not> (\<exists>a \<in> set assets. passesFilter ul osPhrases archPhrases a)"
    by (simp add: filter_empty_conv isCandidate_iff)
  ultimately show ?thesis using e by simp
next
  case False
  from sortSlice_head [OF ok False] obtain c cs where
    c: "srt (filter (isCandidate ul osPhrases archPhrases) assets) = c # cs"
    by blast
  with False os arch have "selectAsset ul srt assets goos goarch = Inr c"
    by (simp add: selectAsset_def)
  moreover from False have "\<exists>a \<in> set assets. passesFilter ul osPhrases archPhrases a"
    by (simp add: filter_empty_conv isCandidate_iff)
  ultimately show ?thesis using e by simp
qed
qed

theorem selectAsset_no_match_iff_witness:
  "selectAsset id byNameLength [] ''windows'' ''amd64'' = Inl (NoMatchingAsset ''windows'' ''amd64'') \<and>
   selectAsset id byNameLength sampleAssets ''windows'' ''amd64'' = Inl (NoMatchingAsset ''windows'' ''amd64'') \<and>
   \<not> (\<exists>a \<in> set sampleAssets. passesFilter id [''windows'', ''win''] [''amd64'', ''x86_64''] a) \<and>
   selectAsset id byNameLength sampleAssets ''linux'' ''amd64'' \<noteq> Inl (NoMatchingAsset ''linux'' ''amd64'') \<and>
   (\<exists>a \<in> set sampleAssets. passesFilter id [''linux''] [''amd64'', ''x86_64''] a)"
proof -
  have win: "osAliases ''windows'' = Some [''windows'', ''win'']"
    and lin: "osAliases ''linux'' = Some [''linux'']"
    by (simp_all add: osAliases_def)
  have arch: "archAliases ''amd64'' = Some [''amd64'', ''x86_64'']"
    by (simp add: archAliases_def)
  have w: "selectAsset id byNameLength sampleAssets ''windows'' ''amd64'' = Inl (NoMatchingAsset ''windows'' ''amd64'')"
    by code_simp
  have l: "selectAsset id byNameLength sampleAssets ''linux'' ''amd64'' \<noteq> Inl (NoMatchingAsset ''linux'' ''amd64'')"
    by code_simp
  from selectAsset_no_match_iff [OF sortSlice_ok_byNameLength win arch, of id sampleAssets] w
    selectAsset_no_match_iff [OF sortSlice_ok_byNameLength lin arch, of id sampleAssets] l
  show ?thesis by blast
qed

text \<open>
  Claim C9. The phrases of windows include \<open>win\<close>, and matching is by substring, so every
  name that contains \<open>darwin\<close> matches the operating-system axis of windows. The list of
  the single asset \<open>tool_darwin_amd64.tar.gz\<close>, selected for windows and amd64, yields that
  asset: its name matches the phrases of darwin and does not contain \<open>windows\<close>.
\<close>

theorem selectAsset_windows_takes_darwin:
  assumes ok: "sortSlice_ok srt shorterName"
    and name: "Name a = ''tool_darwin_amd64.tar.gz''"
  shows "selectAsset ul srt [a] ''windows'' ''amd64'' = Inr a \<and>
         matchesAny (ToLower ul (Name a)) [''darwin'', ''macos'', ''osx''] \<and>
         \<not> sublist ''windows'' (ToLower ul (Name a)) \<and>
         (\<forall>s. sublist ''darwin'' s \<longrightarrow>
             osAliases ''windows'' = Some [''windows'', ''win''] \<and>
             matchesAny s [''windows'', ''win''])"
proof -
  have low: "ToLower ul ''tool_darwin_amd64.tar.gz'' = ''tool_darwin_amd64.tar.gz''"
    by code_simp
  have win: "osAliases ''windows'' = Some [''windows'', ''win'']"
    by (simp add: osAliases_def)
  have arch: "archAliases ''amd64'' = Some [''amd64'', ''x86_64'']"
    by (simp add: archAliases_def)
  have cand: "isCandidate ul [''windows'', ''win''] [''amd64'', ''x86_64''] a"
    unfolding isCandidate_def name low by code_simp
  have sel: "selectAsset ul srt [a] ''windows'' ''amd64'' = Inr a"
    by (simp add: selectAsset_def win arch cand sortSlice_single [OF ok])
  have dar: "matchesAny (ToLower ul (Name a)) [''darwin'', ''macos'', ''osx'']"
    unfolding name low by code_simp
  have nowin: "\<not> sublist ''windows'' (ToLower ul (Name a))"
    unfolding name low Contains_iff [symmetric] by code_simp
  have gen: "matchesAny s [''windows'', ''win'']" if "sublist ''darwin'' s" for s
  proof -
    have "sublist ''win'' ''darwin''"
      unfolding Contains_iff [symmetric] by code_simp
    with that have "sublist ''win'' s"
      by (rule sublist_order.order_trans [rotated])
    then show ?thesis by (simp add: Contains_iff)
  qed
  from sel dar nowin gen win show ?thesis by blast
qed

theorem selectAsset_windows_takes_darwin_witness:
  "selectAsset id byNameLength [mkAsset ''tool_darwin_amd64.tar.gz''] ''windows'' ''amd64''
     = Inr (mkAsset ''tool_darwin_amd64.tar.gz'') \<and>
   \<not> sublist ''windows'' (ToLower id (Name (mkAsset ''tool_darwin_amd64.tar.gz''))) \<and>
   matchesAny ''my-darwin-build'' [''windows'', ''win'']"
proof -
  have n: "Name (mkAsset ''tool_darwin_amd64.tar.gz'') = ''tool_darwin_amd64.tar.gz''"
    by (simp add: mkAsset_def)
  have d: "sublist ''darwin'' ''my-darwin-build''"
    unfolding Contains_iff [symmetric] by code_simp
  from selectAsset_windows_takes_darwin [OF sortSlice_ok_byNameLength n, of id] d
  show ?thesis by blast
qed

subsection \<open>Targets\<close>

lemma Index_char:
  "Index s [c] = (if c \<in> set s then Some (length (takeWhile (\<lambda>x. x \<noteq> c) s)) else None)"
  by (induction s) (auto simp: HasPrefix_def)

lemma takeWhile_absent: "c \<notin> set s \<Longrightarrow> takeWhile (\<lambda>x. x \<noteq> c) s = s"
  by (induction s) auto

lemma takeWhile_split:
  "c \<in> set s \<Longrightarrow>
     takeWhile (\<lambda>x. x \<noteq> c) s @ c # drop (Suc (length (takeWhile (\<lambda>x. x \<noteq> c) s))) s = s"
  by (induction s) auto

lemma takeWhile_upto: "c \<notin> set a \<Longrightarrow> takeWhile (\<lambda>x. x \<noteq> c) (a @ c # r) = a"
  by (induction a) auto

lemma Cut_char:
  "Cut s [c] = (takeWhile (\<lambda>x. x \<noteq> c) s, drop (Suc (length (takeWhile (\<lambda>x. x \<noteq> c) s))) s, c \<in> set s)"
proof (cases "c \<in> set s")
  case True
  then show ?thesis
    by (simp add: Cut_def Index_char takeWhile_eq_take [symmetric])
next
  case False
  then show ?thesis
    by (simp add: Cut_def Index_char takeWhile_absent)
qed

lemma SplitN_slash_2:
  "SplitN s ''/'' 2 =
     (if CHR ''/'' \<in> set s
      then [takeWhile (\<lambda>x. x \<noteq> CHR ''/'') s, drop (Suc (length (takeWhile (\<lambda>x. x \<noteq> CHR ''/'') s))) s]
      else [s])"
proof (cases s)
  case Nil
  then show ?thesis by (simp add: SplitN_def)
next
  case (Cons c cs)
  then have "min 2 (length s + 1) - 1 = Suc 0" by simp
  then have "SplitN s ''/'' 2 = genSplit s ''/'' (Suc 0)"
    by (simp add: SplitN_def)
  then show ?thesis
    by (simp add: Index_char takeWhile_eq_take [symmetric] del: Index.simps)
qed

lemma splitsAtFirstSlash_iff:
  "splitsAtFirstSlash slug ownr rest \<longleftrightarrow>
     CHR ''/'' \<in> set slug \<and> ownr = takeWhile (\<lambda>x. x \<noteq> CHR ''/'') slug \<and>
     rest = drop (Suc (length ownr)) slug \<and> ownr \<noteq> [] \<and> rest \<noteq> []"
  (is "?L \<longleftrightarrow> ?R")
proof
  assume ?L
  then have s: "slug = ownr @ CHR ''/'' # rest" and n: "CHR ''/'' \<notin> set ownr"
    and ne: "ownr \<noteq> []" "rest \<noteq> []"
    by (simp_all add: splitsAtFirstSlash_def)
  from takeWhile_upto [OF n, of rest] s ne show ?R
    by simp
next
  assume a: ?R
  then have mem: "CHR ''/'' \<in> set slug"
    and o: "ownr = takeWhile (\<lambda>x. x \<noteq> CHR ''/'') slug"
    and r: "rest = drop (Suc (length ownr)) slug"
    and ne: "ownr \<noteq> []" "rest \<noteq> []"
    by blast+
  have s: "ownr @ CHR ''/'' # rest = slug"
    unfolding r unfolding o by (rule takeWhile_split [OF mem])
  have n: "CHR ''/'' \<notin> set ownr"
    unfolding o by (auto dest: set_takeWhileD)
  show ?L
    unfolding splitsAtFirstSlash_def
  proof (intro conjI)
    show "slug = ownr @ ''/'' @ rest" using s by simp
  qed (fact n ne)+
qed

text \<open>
  What \<open>parseTarget\<close> returns: an owner without slash and a repository without \<open>@\<close>,
  both not empty.
\<close>

lemma parseTarget_parts:
  assumes "parseTarget s = Inr (ownr, repo, tag)"
  shows "ownr \<noteq> [] \<and> CHR ''/'' \<notin> set ownr \<and> CHR ''@'' \<notin> set ownr \<and>
         repo \<noteq> [] \<and> CHR ''@'' \<notin> set repo"
proof -
  define slug where "slug = takeWhile (\<lambda>x. x \<noteq> CHR ''@'') s"
  have no_at: "CHR ''@'' \<notin> set slug"
    unfolding slug_def by (auto dest: set_takeWhileD)
  from assms have o: "ownr = takeWhile (\<lambda>x. x \<noteq> CHR ''/'') slug"
    and r: "repo = drop (Suc (length ownr)) slug" and ne: "ownr \<noteq> []" "repo \<noteq> []"
    by (auto simp: parseTarget_def Cut_char SplitN_slash_2 Let_def slug_def split: if_splits)
  have "set ownr \<subseteq> set slug"
    unfolding o by (auto dest: set_takeWhileD)
  moreover have "set repo \<subseteq> set slug"
    unfolding r by (rule set_drop_subset)
  moreover have "CHR ''/'' \<notin> set ownr"
    unfolding o by (auto dest: set_takeWhileD)
  ultimately show ?thesis
    using no_at ne by auto
qed

text \<open>
  Claim C10. \<open>parseTarget\<close> fails exactly when the part of the input before the first
  \<open>@\<close> does not split at its first slash into an owner and a rest that are both not
  empty. When it succeeds, the owner is the text before that slash, the repository is all
  the rest of that part (further slashes included), and the tag is the text after the
  first \<open>@\<close>, empty when there is no \<open>@\<close> or nothing after it. So \<open>a/b/c\<close> parses as
  owner \<open>a\<close> and repository \<open>b/c\<close>, and \<open>owner/repo@\<close> is accepted with an empty tag.
\<close>

theorem parseTarget_accepts_iff:
  "(\<exists>e. parseTarget s = Inl e) =
     (\<not> (\<exists>ownr rest. splitsAtFirstSlash (takeWhile (\<lambda>x. x \<noteq> CHR ''@'') s) ownr rest)) \<and>
   (parseTarget s = Inr (ownr, repo, tag)) =
     (splitsAtFirstSlash (takeWhile (\<lambda>x. x \<noteq> CHR ''@'') s) ownr repo \<and>
      tag = drop (Suc (length (takeWhile (\<lambda>x. x \<noteq> CHR ''@'') s))) s) \<and>
   parseTarget ''a/b/c'' = Inr (''a'', ''b/c'', []) \<and>
   parseTarget ''owner/repo@'' = Inr (''owner'', ''repo'', [])"
proof -
  define slug where "slug = takeWhile (\<lambda>x. x \<noteq> CHR ''@'') s"
  define t where "t = drop (Suc (length slug)) s"
  define o' where "o' = takeWhile (\<lambda>x. x \<noteq> CHR ''/'') slug"
  define r' where "r' = drop (Suc (length o')) slug"
  have p: "parseTarget s =
     (if CHR ''/'' \<in> set slug \<and> o' \<noteq> [] \<and> r' \<noteq> [] then Inr (o', r', t) else Inl (InvalidTarget s))"
    by (simp add: parseTarget_def Cut_char SplitN_slash_2 slug_def t_def o'_def r'_def Let_def)
  have a: "(\<exists>e. parseTarget s = Inl e) = (\<not> (\<exists>ownr rest. splitsAtFirstSlash slug ownr rest))"
    unfolding p splitsAtFirstSlash_iff o'_def r'_def by auto
  have b: "(parseTarget s = Inr (ownr, repo, tag)) = (splitsAtFirstSlash slug ownr repo \<and> tag = t)"
    unfolding p splitsAtFirstSlash_iff o'_def r'_def by auto
  have c: "parseTarget ''a/b/c'' = Inr (''a'', ''b/c'', [])"
    by code_simp
  have d: "parseTarget ''owner/repo@'' = Inr (''owner'', ''repo'', [])"
    by code_simp
  from a b c d show ?thesis
    unfolding slug_def t_def by blast
qed

subsection \<open>Archives\<close>

lemma and_0x49_iff:
  "(w :: 32 word) AND 0x49 = 0 \<longleftrightarrow> \<not> bit w 0 \<and> \<not> bit w 3 \<and> \<not> bit w 6"
proof -
  have "(0x49 :: 32 word) = 2 ^ 0 OR 2 ^ 3 OR 2 ^ 6" by simp
  then have "w AND 0x49 = (w AND 2 ^ 0) OR (w AND 2 ^ 3) OR (w AND 2 ^ 6)"
    by (simp only: bit.conj_disj_distrib)
  then show ?thesis
    by (simp only: or_eq_0_iff and_exp_eq_0_iff_not_bit)
qed

lemma tarPerm_exec_iff:
  "tarPerm hdr AND 0x49 = 0 \<longleftrightarrow>
     \<not> bit (hdrMode hdr) 0 \<and> \<not> bit (hdrMode hdr) 3 \<and> \<not> bit (hdrMode hdr) 6"
proof -
  have m: "(0x1FF :: 32 word) = mask 9"
    by (simp add: mask_eq_exp_minus_1)
  show ?thesis
    unfolding tarPerm_def and_0x49_iff m by (simp add: bit_and_iff bit_ucast_iff bit_mask_iff)
qed

lemma tar_skip_iff:
  "(hdrTypeflag hdr \<noteq> TypeReg \<or> tarPerm hdr AND 0x49 = 0) \<longleftrightarrow> \<not> isExecRegular hdr"
  by (auto simp: tarPerm_exec_iff isExecRegular_def TypeReg_def)

lemma zipIsDir_iff: "zipIsDir f \<longleftrightarrow> zipDirectory f"
proof -
  have "(0x80000000 :: 32 word) = 2 ^ 31" by simp
  then show ?thesis
    by (simp only: zipIsDir_def zipDirectory_def and_exp_eq_0_iff_not_bit not_not)
qed

lemma zipExec_iff: "zipMode f AND 0x49 \<noteq> 0 \<longleftrightarrow> zipExecBit f"
  by (auto simp: and_0x49_iff zipExecBit_def)

lemma Ext_scan_no_slash:
  "CHR ''/'' \<notin> set r \<Longrightarrow> Ext_scan r acc = [] \<longleftrightarrow> CHR ''.'' \<notin> set r"
  by (induction r arbitrary: acc) auto

lemma Base_cases:
  "Base p = ''.'' \<or> Base p = ''/'' \<or> CHR ''/'' \<notin> set (Base p)"
  by (auto simp: Base_def Let_def dest: set_takeWhileD)

lemma Ext_Base_iff: "Ext (Base p) = [] \<longleftrightarrow> CHR ''.'' \<notin> set (Base p)"
  using Base_cases [of p]
proof (elim disjE)
  assume "CHR ''/'' \<notin> set (Base p)"
  then show ?thesis
    using Ext_scan_no_slash [of "rev (Base p)" "[]"] by (simp add: Ext_def)
qed (simp_all add: Ext_def)

lemma Base_plain: "n \<noteq> [] \<Longrightarrow> CHR ''/'' \<notin> set n \<Longrightarrow> Base (d @ ''/'' @ n) = n \<and> Base n = n"
proof -
  assume n: "n \<noteq> []" "CHR ''/'' \<notin> set n"
  then have l: "last n \<noteq> CHR ''/''" by (metis last_in_set)
  have dw: "dropWhile (\<lambda>c. c = CHR ''/'') (rev n @ x) = rev n @ x" for x
    using n l by (cases n rule: rev_cases) auto
  have tw: "takeWhile (\<lambda>c. c \<noteq> CHR ''/'') (rev n @ CHR ''/'' # x) = rev n" for x
    using n by (intro takeWhile_upto) simp
  have tw2: "takeWhile (\<lambda>c. c \<noteq> CHR ''/'') (rev n) = rev n"
    using n by (intro takeWhile_absent) simp
  have dw0: "dropWhile (\<lambda>c. c = CHR ''/'') (rev n) = rev n"
    using dw [of "[]"] by simp
  have dw1: "dropWhile (\<lambda>c. c = CHR ''/'') (rev n @ CHR ''/'' # rev d) = rev n @ CHR ''/'' # rev d"
    by (rule dw)
  from n show ?thesis
    by (simp add: Base_def Let_def dw0 dw1 tw tw2)
qed

lemma findInTar_Header:
  "findInTar (TarHeader hdr body # tr) =
     (if isExecRegular hdr
      then (case body of Inl err \<Rightarrow> Inl err | Inr data \<Rightarrow> Inr (Base (hdrName hdr), data))
      else findInTar tr)"
  by (simp only: findInTar.simps tar_skip_iff) simp

lemma findInTar_skip:
  "\<forall>it \<in> set pre. \<exists>hdr body. it = TarHeader hdr body \<and> \<not> isExecRegular hdr \<Longrightarrow>
     findInTar (pre @ tr) = findInTar tr"
proof (induction pre)
  case Nil
  then show ?case by simp
next
  case (Cons it pre)
  then obtain hdr body where "it = TarHeader hdr body" "\<not> isExecRegular hdr"
    by auto
  with Cons show ?case
    by (simp add: findInTar_Header del: findInTar.simps)
qed

lemma extractBinary_tar:
  "suffix ''.tar.gz'' (ToLower ul assetName) \<or> suffix ''.tgz'' (ToLower ul assetName) \<Longrightarrow>
     extractBinary ul gz bz zr data assetName =
       (case gz data of Inl err \<Rightarrow> Inl err | Inr tr \<Rightarrow> findInTar tr)"
  "suffix ''.tar.bz2'' (ToLower ul assetName) \<Longrightarrow>
     extractBinary ul gz bz zr data assetName = findInTar (bz data)"
  by (auto simp: extractBinary_def HasSuffix_iff suffix_def)

text \<open>
  Claim C3. In a tar stream whose entries before some point are all read without error
  and are not executable regular files (directories, symbolic links, regular files with no
  execute bit), these entries are skipped: if the stream ends there, the extraction fails
  with the no-executable error; if the next entry is a regular file with an execute bit of
  the owner, the group or the others, the extraction returns its base name and its content
  as read, whatever follows. The base name of \<open>d/n\<close> is \<open>n\<close>. An asset whose lowered
  name ends in \<open>.tar.gz\<close>, \<open>.tgz\<close> or \<open>.tar.bz2\<close> is extracted in this way from its
  decompressed stream.
\<close>

theorem findInTar_first_executable:
  assumes skipped: "\<forall>it \<in> set pre. \<exists>hdr body. it = TarHeader hdr body \<and> \<not> isExecRegular hdr"
  shows "findInTar pre = Inl NoExecutableFound \<and>
         (isExecRegular hdr \<longrightarrow>
            findInTar (pre @ TarHeader hdr (Inr content) # tr) = Inr (Base (hdrName hdr), content)) \<and>
         (n \<noteq> [] \<and> CHR ''/'' \<notin> set n \<longrightarrow> Base (d @ ''/'' @ n) = n \<and> Base n = n) \<and>
         ((suffix ''.tar.gz'' (ToLower ul assetName) \<or> suffix ''.tgz'' (ToLower ul assetName)) \<and>
          gz data = Inr (pre @ TarHeader hdr (Inr content) # tr) \<and> isExecRegular hdr \<longrightarrow>
            extractBinary ul gz bz zr data assetName = Inr (Base (hdrName hdr), content)) \<and>
         (suffix ''.tar.bz2'' (ToLower ul assetName) \<and>
          bz data = pre @ TarHeader hdr (Inr content) # tr \<and> isExecRegular hdr \<longrightarrow>
            extractBinary ul gz bz zr data assetName = Inr (Base (hdrName hdr), content))"
proof -
  from findInTar_skip [OF skipped, of "[]"] have a: "findInTar pre = Inl NoExecutableFound"
    by simp
  have b: "findInTar (pre @ TarHeader hdr (Inr content) # tr) = Inr (Base (hdrName hdr), content)"
    if "isExecRegular hdr"
    using findInTar_skip [OF skipped, of "TarHeader hdr (Inr content) # tr"] that
    by (simp add: findInTar_Header del: findInTar.simps)
  have c: "extractBinary ul gz bz zr data assetName = Inr (Base (hdrName hdr), content)"
    if "suffix ''.tar.gz'' (ToLower ul assetName) \<or> suffix ''.tgz'' (ToLower ul assetName)"
      "gz data = Inr (pre @ TarHeader hdr (Inr content) # tr)" "isExecRegular hdr"
    using extractBinary_tar(1) [OF that(1), of gz bz zr data] that(2) b [OF that(3)] by simp
  have d: "extractBinary ul gz bz zr data assetName = Inr (Base (hdrName hdr), content)"
    if "suffix ''.tar.bz2'' (ToLower ul assetName)"
      "bz data = pre @ TarHeader hdr (Inr content) # tr" "isExecRegular hdr"
    using extractBinary_tar(2) [OF that(1), of gz bz zr data] that(2) b [OF that(3)] by simp
  from a b c d Base_plain [of n d] show ?thesis by blast
qed

theorem findInTar_first_executable_witness:
  "findInTar sampleTar = Inr (''tool'', ''ELF-tool'') \<and>
   findInTar (take 3 sampleTar) = Inl NoExecutableFound \<and>
   extractBinary id (\<lambda>_. Inr sampleTar) (\<lambda>_. []) (\<lambda>_. Inr []) ''gzip bytes'' ''Tool_Linux_amd64.TGZ''
     = Inr (''tool'', ''ELF-tool'')"
proof -
  let ?h = "\<lparr>hdrTypeflag = CHR ''0'', hdrName = ''tool-1.0/bin/tool'', hdrMode = 0x1ED\<rparr>"
  have sk: "\<forall>it \<in> set (take 3 sampleTar). \<exists>hdr body. it = TarHeader hdr body \<and> \<not> isExecRegular hdr"
    by (simp add: sampleTar_def isExecRegular_def)
  have ex: "isExecRegular ?h"
    by (simp add: isExecRegular_def)
  have sp: "sampleTar = take 3 sampleTar @ TarHeader ?h (Inr ''ELF-tool'') # drop 4 sampleTar"
    by (simp add: sampleTar_def)
  have nm: "''tool'' \<noteq> [] \<and> CHR ''/'' \<notin> set ''tool''"
    by simp
  have l: "ToLower id ''Tool_Linux_amd64.TGZ'' = ''tool_linux_amd64.tgz''"
    by code_simp
  have sf: "suffix ''.tar.gz'' (ToLower id ''Tool_Linux_amd64.TGZ'') \<or>
            suffix ''.tgz'' (ToLower id ''Tool_Linux_amd64.TGZ'')"
    unfolding l HasSuffix_iff [symmetric] by code_simp
  have gz: "(\<lambda>_. Inr sampleTar) ''gzip bytes''
              = (Inr (take 3 sampleTar @ TarHeader ?h (Inr ''ELF-tool'') # drop 4 sampleTar) :: error + tarItem list)"
    using sp by simp
  from findInTar_first_executable [OF sk, of ?h "''ELF-tool''" "drop 4 sampleTar" "''tool''"
      "''tool-1.0/bin''" id "''Tool_Linux_amd64.TGZ''" "\<lambda>_. Inr sampleTar" "''gzip bytes''"
      "\<lambda>_. []" "\<lambda>_. Inr []"]
    ex nm sf gz
  have "findInTar (take 3 sampleTar) = Inl NoExecutableFound"
    and "findInTar (take 3 sampleTar @ TarHeader ?h (Inr ''ELF-tool'') # drop 4 sampleTar) = Inr (Base (hdrName ?h), ''ELF-tool'')"
    and "Base (''tool-1.0/bin'' @ ''/'' @ ''tool'') = ''tool''"
    and "extractBinary id (\<lambda>_. Inr sampleTar) (\<lambda>_. []) (\<lambda>_. Inr []) ''gzip bytes'' ''Tool_Linux_amd64.TGZ''
           = Inr (Base (hdrName ?h), ''ELF-tool'')"
    by blast+
  with sp show ?thesis
    by simp
qed

lemma findInZip_loop_step:
  "findInZip_loop (f # fs) fallback =
     (if zipDirectory f then findInZip_loop fs fallback
      else if zipExecBit f then zipResult f
      else if zipNoExtension f
           then findInZip_loop fs (if fallback = None then Some f else fallback)
           else findInZip_loop fs fallback)"
  by (simp add: zipIsDir_iff zipExec_iff Ext_Base_iff zipNoExtension_def zipResult_def
      readZipFile_def Let_def)

lemma findInZip_loop_end:
  "findInZip_loop [] fallback =
     (case fallback of Some fb \<Rightarrow> zipResult fb | None \<Rightarrow> Inl NoExecutableFound)"
  by (simp add: zipResult_def readZipFile_def split: option.splits)

lemma findInZip_loop_exec:
  assumes "\<forall>g \<in> set pre. zipDirectory g \<or> \<not> zipExecBit g"
    and "\<not> zipDirectory f" and "zipExecBit f"
  shows "findInZip_loop (pre @ f # rest) fallback = zipResult f"
  using assms
  by (induction pre arbitrary: fallback)
     (auto simp: findInZip_loop_step simp del: findInZip_loop.simps)

lemma findInZip_loop_kept:
  assumes "\<forall>g \<in> set fs. zipDirectory g \<or> \<not> zipExecBit g"
  shows "findInZip_loop fs (Some fb) = zipResult fb"
  using assms
  by (induction fs)
     (auto simp: findInZip_loop_step findInZip_loop_end simp del: findInZip_loop.simps)

lemma findInZip_loop_skip:
  assumes "\<forall>g \<in> set pre. zipDirectory g \<or> (\<not> zipExecBit g \<and> \<not> zipNoExtension g)"
  shows "findInZip_loop (pre @ fs) fallback = findInZip_loop fs fallback"
  using assms
  by (induction pre)
     (auto simp: findInZip_loop_step simp del: findInZip_loop.simps)

text \<open>
  Claim C2. For a zip archive that \<^verbatim>\<open>zip.NewReader\<close> accepts: if an entry that is not a
  directory has an executable bit, and no entry before it is such an entry, the extraction
  returns this entry (its base name and content, or the error of reading it), also when an
  entry without extension and without executable bit comes earlier; if no entry that is not
  a directory has an executable bit, the extraction returns the first entry that is not a
  directory and whose base name has no extension; if every entry is a directory or has
  both an extension and no executable bit, the extraction fails with the no-executable
  error.
\<close>

theorem findInZip_priority:
  assumes zr: "zr data = Inr files"
  shows "((\<exists>pre rest. files = pre @ f # rest \<and> (\<forall>g \<in> set pre. zipDirectory g \<or> \<not> zipExecBit g)) \<and>
            \<not> zipDirectory f \<and> zipExecBit f
          \<longrightarrow> findInZip zr data = zipResult f) \<and>
         ((\<forall>g \<in> set files. zipDirectory g \<or> \<not> zipExecBit g) \<and>
          (\<exists>pre rest. files = pre @ f # rest \<and> (\<forall>g \<in> set pre. zipDirectory g \<or> \<not> zipNoExtension g)) \<and>
            \<not> zipDirectory f \<and> zipNoExtension f
          \<longrightarrow> findInZip zr data = zipResult f) \<and>
         ((\<forall>g \<in> set files. zipDirectory g \<or> (\<not> zipExecBit g \<and> \<not> zipNoExtension g))
          \<longrightarrow> findInZip zr data = Inl NoExecutableFound)"
proof (intro conjI impI)
  assume "(\<exists>pre rest. files = pre @ f # rest \<and> (\<forall>g \<in> set pre. zipDirectory g \<or> \<not> zipExecBit g)) \<and>
            \<not> zipDirectory f \<and> zipExecBit f"
  then obtain pre rest where "files = pre @ f # rest"
    "\<forall>g \<in> set pre. zipDirectory g \<or> \<not> zipExecBit g" "\<not> zipDirectory f" "zipExecBit f"
    by blast
  then show "findInZip zr data = zipResult f"
    using zr by (simp add: findInZip_def findInZip_loop_exec)
next
  assume a: "(\<forall>g \<in> set files. zipDirectory g \<or> \<not> zipExecBit g) \<and>
          (\<exists>pre rest. files = pre @ f # rest \<and> (\<forall>g \<in> set pre. zipDirectory g \<or> \<not> zipNoExtension g)) \<and>
            \<not> zipDirectory f \<and> zipNoExtension f"
  then obtain pre rest where fs: "files = pre @ f # rest"
    and pre: "\<forall>g \<in> set pre. zipDirectory g \<or> \<not> zipNoExtension g"
    and f: "\<not> zipDirectory f" "zipNoExtension f"
    by blast
  from a fs have nx: "\<forall>g \<in> set pre. zipDirectory g \<or> \<not> zipExecBit g" "\<not> zipExecBit f"
    "\<forall>g \<in> set rest. zipDirectory g \<or> \<not> zipExecBit g"
    using f by auto
  from pre nx(1) have "\<forall>g \<in> set pre. zipDirectory g \<or> (\<not> zipExecBit g \<and> \<not> zipNoExtension g)"
    by blast
  then have "findInZip_loop files None = findInZip_loop (f # rest) None"
    unfolding fs by (rule findInZip_loop_skip)
  also have "\<dots> = findInZip_loop rest (Some f)"
    using f nx(2) by (simp add: findInZip_loop_step del: findInZip_loop.simps)
  also have "\<dots> = zipResult f"
    using nx(3) by (rule findInZip_loop_kept)
  finally show "findInZip zr data = zipResult f"
    using zr by (simp add: findInZip_def)
next
  assume "\<forall>g \<in> set files. zipDirectory g \<or> (\<not> zipExecBit g \<and> \<not> zipNoExtension g)"
  then have "findInZip_loop (files @ []) None = findInZip_loop [] None"
    by (rule findInZip_loop_skip)
  then show "findInZip zr data = Inl NoExecutableFound"
    using zr by (simp add: findInZip_def)
qed

lemma sampleZip_facts:
  "zipDirectory (sampleZip ! 0)" "\<not> zipDirectory (sampleZip ! 1)" "\<not> zipDirectory (sampleZip ! 2)"
  "\<not> zipDirectory (sampleZip ! 3)"
  "\<not> zipExecBit (sampleZip ! 1)" "\<not> zipExecBit (sampleZip ! 2)" "zipExecBit (sampleZip ! 3)"
  "zipNoExtension (sampleZip ! 1)" "\<not> zipNoExtension (sampleZip ! 2)"
  "zipResult (sampleZip ! 1) = Inr (''LICENSE'', ''MIT'')"
  "zipResult (sampleZip ! 3) = Inr (''tool.exe'', ''MZ-tool'')"
  by (simp_all add: sampleZip_def zipDirectory_def zipExecBit_def zipNoExtension_def zipResult_def
      Base_def)

theorem findInZip_priority_witness:
  "findInZip (\<lambda>_. Inr sampleZip) [] = Inr (''tool.exe'', ''MZ-tool'') \<and>
   findInZip (\<lambda>_. Inr (take 3 sampleZip)) [] = Inr (''LICENSE'', ''MIT'') \<and>
   findInZip (\<lambda>_. Inr [sampleZip ! 0, sampleZip ! 2]) [] = Inl NoExecutableFound"
proof -
  note f = sampleZip_facts
  have s: "sampleZip = [sampleZip ! 0, sampleZip ! 1, sampleZip ! 2] @ sampleZip ! 3 # [sampleZip ! 4]"
    and t: "take 3 sampleZip = [sampleZip ! 0] @ sampleZip ! 1 # [sampleZip ! 2]"
    by (simp_all add: sampleZip_def)
  have a: "(\<exists>pre rest. sampleZip = pre @ sampleZip ! 3 # rest \<and>
              (\<forall>g \<in> set pre. zipDirectory g \<or> \<not> zipExecBit g)) \<and>
           \<not> zipDirectory (sampleZip ! 3) \<and> zipExecBit (sampleZip ! 3)"
    using s f by (intro conjI exI [of _ "[sampleZip ! 0, sampleZip ! 1, sampleZip ! 2]"]
        exI [of _ "[sampleZip ! 4]"]) simp_all
  have b: "(\<forall>g \<in> set (take 3 sampleZip). zipDirectory g \<or> \<not> zipExecBit g) \<and>
           (\<exists>pre rest. take 3 sampleZip = pre @ sampleZip ! 1 # rest \<and>
              (\<forall>g \<in> set pre. zipDirectory g \<or> \<not> zipNoExtension g)) \<and>
           \<not> zipDirectory (sampleZip ! 1) \<and> zipNoExtension (sampleZip ! 1)"
    using t f by (intro conjI exI [of _ "[sampleZip ! 0]"] exI [of _ "[sampleZip ! 2]"]) simp_all
  have c: "\<forall>g \<in> set [sampleZip ! 0, sampleZip ! 2].
             zipDirectory g \<or> (\<not> zipExecBit g \<and> \<not> zipNoExtension g)"
    using f by simp
  from findInZip_priority [of "\<lambda>_. Inr sampleZip" "[]" sampleZip "sampleZip ! 3"] a
  have "findInZip (\<lambda>_. Inr sampleZip) [] = zipResult (sampleZip ! 3)"
    by blast
  moreover from findInZip_priority [of "\<lambda>_. Inr (take 3 sampleZip)" "[]" "take 3 sampleZip" "sampleZip ! 1"] b
  have "findInZip (\<lambda>_. Inr (take 3 sampleZip)) [] = zipResult (sampleZip ! 1)"
    by blast
  moreover from findInZip_priority [of "\<lambda>_. Inr [sampleZip ! 0, sampleZip ! 2]" "[]" "[sampleZip ! 0, sampleZip ! 2]"] c
  have "findInZip (\<lambda>_. Inr [sampleZip ! 0, sampleZip ! 2]) [] = Inl NoExecutableFound"
    by blast
  ultimately show ?thesis
    using f by simp
qed

lemma suffix_excl:
  "HasSuffix l ''.tar.xz'' \<Longrightarrow>
     \<not> HasSuffix l ''.tar.gz'' \<and> \<not> HasSuffix l ''.tgz'' \<and> \<not> HasSuffix l ''.tar.bz2'' \<and> \<not> HasSuffix l ''.zip''"
  by (auto simp: HasSuffix_iff suffix_def)

text \<open>
  Claim C4. When the lowered name of the asset ends in none of \<open>.tar.gz\<close>, \<open>.tgz\<close>,
  \<open>.tar.bz2\<close> and \<open>.zip\<close>, \<open>extractBinary\<close> returns the name of the asset as given and
  the bytes unchanged, and does not fail, whatever the decoders would do. This is so for a
  name that ends in \<open>.tar.xz\<close>, which the archive filter of the selector accepts.
\<close>

theorem extractBinary_raw:
  "(\<not> suffix ''.tar.gz'' (ToLower ul assetName) \<and> \<not> suffix ''.tgz'' (ToLower ul assetName) \<and>
    \<not> suffix ''.tar.bz2'' (ToLower ul assetName) \<and> \<not> suffix ''.zip'' (ToLower ul assetName)
      \<longrightarrow> extractBinary ul gz bz zr data assetName = Inr (assetName, data)) \<and>
   (suffix ''.tar.xz'' (ToLower ul assetName)
      \<longrightarrow> isArchive (ToLower ul assetName) \<and>
          extractBinary ul gz bz zr data assetName = Inr (assetName, data))"
proof (intro conjI impI)
  assume "\<not> suffix ''.tar.gz'' (ToLower ul assetName) \<and> \<not> suffix ''.tgz'' (ToLower ul assetName) \<and>
    \<not> suffix ''.tar.bz2'' (ToLower ul assetName) \<and> \<not> suffix ''.zip'' (ToLower ul assetName)"
  then show "extractBinary ul gz bz zr data assetName = Inr (assetName, data)"
    by (simp add: extractBinary_def HasSuffix_iff)
next
  assume x: "suffix ''.tar.xz'' (ToLower ul assetName)"
  then show "isArchive (ToLower ul assetName)"
    by (simp add: isArchive_def archiveExts_def HasSuffix_iff)
  from x suffix_excl [of "ToLower ul assetName"]
  show "extractBinary ul gz bz zr data assetName = Inr (assetName, data)"
    by (simp add: extractBinary_def HasSuffix_iff)
qed

theorem extractBinary_raw_witness:
  "extractBinary id (\<lambda>_. Inl (LibError ''gzip: invalid header'')) (\<lambda>_. [TarError (LibError ''bzip2'')])
      (\<lambda>_. Inl (LibError ''zip: not a valid zip file'')) ''raw bytes'' ''Tool_Linux_amd64.tar.XZ''
     = Inr (''Tool_Linux_amd64.tar.XZ'', ''raw bytes'') \<and>
   isArchive (ToLower id ''Tool_Linux_amd64.tar.XZ'') \<and>
   extractBinary id (\<lambda>_. Inl (LibError ''gzip: invalid header'')) (\<lambda>_. [TarError (LibError ''bzip2'')])
      (\<lambda>_. Inl (LibError ''zip: not a valid zip file'')) ''raw bytes'' ''tool-linux-amd64''
     = Inr (''tool-linux-amd64'', ''raw bytes'')"
proof -
  have l: "ToLower id ''Tool_Linux_amd64.tar.XZ'' = ''tool_linux_amd64.tar.xz''"
    and m: "ToLower id ''tool-linux-amd64'' = ''tool-linux-amd64''"
    by code_simp+
  have x: "suffix ''.tar.xz'' (ToLower id ''Tool_Linux_amd64.tar.XZ'')"
    unfolding l HasSuffix_iff [symmetric] by code_simp
  have n: "\<not> suffix ''.tar.gz'' (ToLower id ''tool-linux-amd64'') \<and>
           \<not> suffix ''.tgz'' (ToLower id ''tool-linux-amd64'') \<and>
           \<not> suffix ''.tar.bz2'' (ToLower id ''tool-linux-amd64'') \<and>
           \<not> suffix ''.zip'' (ToLower id ''tool-linux-amd64'')"
    unfolding m HasSuffix_iff [symmetric] by code_simp
  from extractBinary_raw [of id "''Tool_Linux_amd64.tar.XZ''"] x
    extractBinary_raw [of id "''tool-linux-amd64''"] n
  show ?thesis by blast
qed

subsection \<open>Installing\<close>

lemma map_of_filter_key:
  "map_of (filter (\<lambda>e. P (fst e)) fs) q = (if P q then map_of fs q else None)"
  by (induction fs) auto

lemma RemoveAll_gone:
  "rmErr p = None \<Longrightarrow> prefix p q \<Longrightarrow> map_of (snd (RemoveAll rmErr p fs)) q = None"
  using map_of_filter_key [of "\<lambda>k. \<not> prefix p k" fs q] by (simp add: RemoveAll_def)

text \<open>
  The rollback of \<open>installBinary\<close> with a base directory. When the creation of the version
  directory \<open>base/ghinst/owner/repo@tag\<close> has succeeded and \<open>installBinary\<close> then returns an
  error (from opening the file of the binary, from copying, from creating the directory of
  the links, or from creating the link), the deferred function has called
  \<^verbatim>\<open>os.RemoveAll\<close> on the version directory; when that removal does not fail, the file
  system that is left has no node at the version directory or below it.
\<close>

theorem installBinary_rollback:
  assumes created: "fst (MkdirAll (Join baseDir [''ghinst'', owner, repo @ ''@'' @ tag]) now fs) = None"
    and failed: "installBinary rmErr baseDir owner repo tag binName src now fs = (Inl err, fs')"
    and removal: "rmErr (Join baseDir [''ghinst'', owner, repo @ ''@'' @ tag]) = None"
  shows "\<forall>q. prefix (Join baseDir [''ghinst'', owner, repo @ ''@'' @ tag]) q \<longrightarrow> map_of fs' q = None"
proof -
  define installDir where "installDir = Join baseDir [''ghinst'', owner, repo @ ''@'' @ tag]"
  have unf: "installBinary rmErr baseDir owner repo tag binName src now fs =
     (case MkdirAll installDir now fs of
        (Some err, fs1) \<Rightarrow> (Inl err, fs1)
      | (None, fs1) \<Rightarrow>
          (case installBinary_steps baseDir installDir binName src now fs1 of
             (Inl err, fs') \<Rightarrow> (Inl err, snd (RemoveAll rmErr installDir fs'))
           | (Inr linkPath, fs') \<Rightarrow> (Inr linkPath, fs')))"
    by (simp only: installBinary_def Let_def installDir_def)
  from created obtain fs1 where mk: "MkdirAll installDir now fs = (None, fs1)"
    unfolding installDir_def [symmetric] by (cases "MkdirAll installDir now fs") simp
  obtain r fs2 where st: "installBinary_steps baseDir installDir binName src now fs1 = (r, fs2)"
    by (cases "installBinary_steps baseDir installDir binName src now fs1") simp
  from failed mk st have "fs' = snd (RemoveAll rmErr installDir fs2)"
    by (cases r) (simp_all add: unf)
  then show ?thesis
    using removal unfolding installDir_def [symmetric] by (simp add: RemoveAll_gone)
qed

theorem installBinary_rollback_witness:
  "fst (MkdirAll (Join [''home''] [''ghinst'', ''owner'', ''repo'' @ ''@'' @ ''v9'']) 40 sampleFs) = None \<and>
   fst (installBinary noRemovalFails [''home''] ''owner'' ''repo'' ''v9'' ''tool''
          (''EL'', Some (LibError ''unexpected EOF'')) 40 sampleFs)
     = Inl (LibError ''unexpected EOF'') \<and>
   map_of (snd (installBinary noRemovalFails [''home''] ''owner'' ''repo'' ''v9'' ''tool''
                  (''EL'', Some (LibError ''unexpected EOF'')) 40 sampleFs))
     [''home'', ''ghinst'', ''owner'', ''repo@v9''] = None \<and>
   map_of (snd (installBinary noRemovalFails [''home''] ''owner'' ''repo'' ''v9'' ''tool''
                  (''EL'', Some (LibError ''unexpected EOF'')) 40 sampleFs))
     [''home'', ''ghinst'', ''owner'', ''repo@v9'', ''tool''] = None \<and>
   fst (installBinary noRemovalFails [''home''] ''owner'' ''repo'' ''v9'' ''docs'' (''ELF'', None) 40 sampleFs)
     = Inl (LibError ''symlink: file exists'') \<and>
   map_of (snd (installBinary noRemovalFails [''home''] ''owner'' ''repo'' ''v9'' ''docs'' (''ELF'', None) 40 sampleFs))
     [''home'', ''ghinst'', ''owner'', ''repo@v9''] = None"
proof -
  let ?a = "installBinary noRemovalFails [''home''] ''owner'' ''repo'' ''v9'' ''tool''
              (''EL'', Some (LibError ''unexpected EOF'')) 40 sampleFs"
  let ?b = "installBinary noRemovalFails [''home''] ''owner'' ''repo'' ''v9'' ''docs'' (''ELF'', None) 40 sampleFs"
  have j: "Join [''home''] [''ghinst'', ''owner'', ''repo'' @ ''@'' @ ''v9''] = [''home'', ''ghinst'', ''owner'', ''repo@v9'']"
    by code_simp
  have mk: "fst (MkdirAll (Join [''home''] [''ghinst'', ''owner'', ''repo'' @ ''@'' @ ''v9'']) 40 sampleFs) = None"
    by code_simp
  have rm: "noRemovalFails (Join [''home''] [''ghinst'', ''owner'', ''repo'' @ ''@'' @ ''v9'']) = None"
    by (simp add: noRemovalFails_def)
  have a: "fst ?a = Inl (LibError ''unexpected EOF'')" and b: "fst ?b = Inl (LibError ''symlink: file exists'')"
    by code_simp+
  from a have a': "?a = (Inl (LibError ''unexpected EOF''), snd ?a)"
    by (metis prod.collapse)
  from b have b': "?b = (Inl (LibError ''symlink: file exists''), snd ?b)"
    by (metis prod.collapse)
  from installBinary_rollback [OF mk a' rm] installBinary_rollback [OF mk b' rm] mk a b
  show ?thesis
    unfolding j by simp
qed

text \<open>
  The error of the deferred \<^verbatim>\<open>os.RemoveAll\<close> is dropped: when the removal is denied,
  \<open>installBinary\<close> returns the error of the step that failed, and the version directory
  stays.
\<close>

theorem installBinary_rollback_denied:
  "fst (installBinary removalDenied [''home''] ''owner'' ''repo'' ''v9'' ''docs'' (''ELF'', None) 40 sampleFs)
     = Inl (LibError ''symlink: file exists'') \<and>
   map_of (snd (installBinary removalDenied [''home''] ''owner'' ''repo'' ''v9'' ''docs'' (''ELF'', None) 40 sampleFs))
     [''home'', ''ghinst'', ''owner'', ''repo@v9''] = Some (Dir 40)"
  by code_simp

subsection \<open>The installer without a base directory\<close>

text \<open>
  Claim C7 fails on the \<open>installBinary\<close> of \<^verbatim>\<open>main.go\<close>, which has no deferred function.
  With \<^verbatim>\<open>~/.local/bin\<close> a regular file, the version directory is created and the binary is
  written, then the creation of the directory of the links fails: \<open>installBinary\<close> returns
  that error, and the version directory and the binary stay in place.
\<close>

theorem installBinary_home_leaves_version:
  "fst (MkdirAll (Join [''home''] [''.local'', ''ghinst'', ''owner'', ''repo'' @ ''@'' @ ''v1'']) 5 sampleHomeFs) = None \<and>
   fst (installBinary_home (Inr [''home'']) ''owner'' ''repo'' ''v1'' ''tool'' ''ELF'' 5 sampleHomeFs)
     = Inl (LibError ''mkdir: not a directory'') \<and>
   map_of (snd (installBinary_home (Inr [''home'']) ''owner'' ''repo'' ''v1'' ''tool'' ''ELF'' 5 sampleHomeFs))
     [''home'', ''.local'', ''ghinst'', ''owner'', ''repo@v1''] = Some (Dir 5) \<and>
   map_of (snd (installBinary_home (Inr [''home'']) ''owner'' ''repo'' ''v1'' ''tool'' ''ELF'' 5 sampleHomeFs))
     [''home'', ''.local'', ''ghinst'', ''owner'', ''repo@v1'', ''tool''] = Some (File ''ELF'')"
  by code_simp

subsection \<open>Purging\<close>











end
